theory Spec2Isabelle
  imports Main "HOL-Library.Word" "HOL-Library.FSet"
begin

section \<open>Data model (WebUpdates.hpp)\<close>

text \<open>
  \<open>QByteArray\<close>, \<open>std::string\<close> and \<open>std::vector<char>\<close> are sequences of bytes; a HOL
  \<open>char\<close> is one byte. A compact signature, a SHA-256 digest and a public key are byte
  arrays too. A \<open>bts::blockchain::address\<close> is identified with its base58 text.
\<close>

type_synonym bytes = string
type_synonym compact_signature = bytes
type_synonym sha256 = bytes
type_synonym public_key = bytes
type_synonym address = string

text \<open>
  \<open>WebUpdateManifest::UpdateDetails\<close>. The four version fields are \<open>uint8_t\<close>,
  \<open>timestamp\<close> is an \<open>fc::time_point_sec\<close> (unsigned 32-bit seconds). The field
  \<open>signatures\<close> lists the elements of the \<open>std::unordered_set\<close> in its iteration order;
  \<open>signatures.size()\<close> is the length of that list.
\<close>

record UpdateDetails =
  majorVersion :: "8 word"
  forkVersion :: "8 word"
  minorVersion :: "8 word"
  patchVersion :: "8 word"
  signatures :: "compact_signature list"
  releaseNotes :: string
  updatePackageUrl :: string
  timestamp :: "32 word"

text \<open>The default constructor: version 0.4.16-a (\<open>'a'\<close> is byte 97), everything else empty.\<close>

definition UpdateDetails_default :: UpdateDetails where
  "UpdateDetails_default =
     \<lparr>majorVersion = 0, forkVersion = 4, minorVersion = 16, patchVersion = 97,
      signatures = [], releaseNotes = [], updatePackageUrl = [], timestamp = 0\<rparr>"

text \<open>\<open>UpdateDetails::operator<\<close>: lexicographic on the four version fields.\<close>

definition less_UpdateDetails :: "UpdateDetails \<Rightarrow> UpdateDetails \<Rightarrow> bool" where
  "less_UpdateDetails a other =
     (if majorVersion a \<noteq> majorVersion other then majorVersion a < majorVersion other
      else if forkVersion a \<noteq> forkVersion other then forkVersion a < forkVersion other
      else if minorVersion a \<noteq> minorVersion other then minorVersion a < minorVersion other
      else patchVersion a < patchVersion other)"

text \<open>
  The library functions and build constants the window code calls but does not define
  (fc, bts, Qt and the configuration headers) are parameters of the model. A function that
  throws \<open>fc::exception\<close> returns \<open>None\<close>.
\<close>

record externals =
  BTS_ADDRESS_PREFIX :: string
  CUSTOM_URL_SCHEME :: string
  git_revision_unix_timestamp :: "32 word"
  sha256_hash :: "bytes \<Rightarrow> sha256"
  ecc_public_key :: "compact_signature \<Rightarrow> sha256 \<Rightarrow> public_key option"
  address_of :: "public_key \<Rightarrow> address"
  json_to_string :: "UpdateDetails \<Rightarrow> string"
  json_save :: "UpdateDetails \<Rightarrow> bytes"
  json_load :: "bytes \<Rightarrow> UpdateDetails option"
  lzma_decompress :: "bytes \<Rightarrow> bytes option"
  raw_unpack :: "bytes \<Rightarrow> (string \<times> bytes) list option"
  httpd_endpoint :: string
  qt_toLower :: "string \<Rightarrow> string"
  qt_toInt :: "string \<Rightarrow> 32 word option"
  qt_number :: "32 word \<Rightarrow> string"

definition WEB_UPDATES_SIGNATURE_REQUIREMENT :: nat where
  "WEB_UPDATES_SIGNATURE_REQUIREMENT = 2"

definition WEB_UPDATES_SIGNING_KEYS :: "externals \<Rightarrow> address fset" where
  "WEB_UPDATES_SIGNING_KEYS ext =
     {| BTS_ADDRESS_PREFIX ext @ ''4ucXsqrD7uvPF4oaQGZtyapdbgZfGMrcP'',
        BTS_ADDRESS_PREFIX ext @ ''HmsVUBDcWxM1hR3VZ6UCeXFUdgy9u9XLx'',
        BTS_ADDRESS_PREFIX ext @ ''88fzLmtm2ahKdFQYhgmHWynXkoMKYmZmd'',
        BTS_ADDRESS_PREFIX ext @ ''Q3axJzb5S9ZNizH7hJoZFQQpeWmvq5Qtu'' |}"

text \<open>\<open>UpdateDetails::signable_string\<close>: serialize a copy whose signature set is cleared.\<close>

definition signable_string :: "externals \<Rightarrow> UpdateDetails \<Rightarrow> string" where
  "signable_string ext this =
     (let ud = this\<lparr>signatures := []\<rparr> in json_to_string ext ud)"

section \<open>Signature verification (MainWindow::verifyUpdateSignature)\<close>

text \<open>
  \<open>fc::sha256::encoder\<close>: the state is the bytes written so far, \<open>result\<close> hashes them.
\<close>

type_synonym encoder = bytes

definition enc_init :: encoder where
  "enc_init = []"

definition enc_write :: "bytes \<Rightarrow> encoder \<Rightarrow> encoder" where
  "enc_write d enc = enc @ d"

definition enc_result :: "externals \<Rightarrow> encoder \<Rightarrow> sha256" where
  "enc_result ext enc = sha256_hash ext enc"

definition update_hash :: "externals \<Rightarrow> UpdateDetails \<Rightarrow> bytes \<Rightarrow> sha256" where
  "update_hash ext d updatePackage =
     (let enc = enc_write updatePackage enc_init;
          desc = signable_string ext d;
          enc = enc_write desc enc
      in enc_result ext enc)"

datatype exn = fc_exception | null_pointer

text \<open>
  The loop over the signatures: each recovered address is erased from the copy of the
  trusted key set. Key recovery throws on a malformed signature; nothing catches it.
\<close>

fun erase_signers ::
  "externals \<Rightarrow> sha256 \<Rightarrow> compact_signature list \<Rightarrow> address fset \<Rightarrow> exn + address fset" where
  "erase_signers ext hash [] authorized_signers = Inr authorized_signers"
| "erase_signers ext hash (signature # rest) authorized_signers =
     (case ecc_public_key ext signature hash of
        None \<Rightarrow> Inl fc_exception
      | Some k \<Rightarrow> erase_signers ext hash rest (authorized_signers |-| {|address_of ext k|}))"

definition verifyUpdateSignature :: "externals \<Rightarrow> UpdateDetails \<Rightarrow> bytes \<Rightarrow> exn + bool" where
  "verifyUpdateSignature ext webUpdateDescription updatePackage =
     (if length (signatures webUpdateDescription) < WEB_UPDATES_SIGNATURE_REQUIREMENT
         \<or> fcard (WEB_UPDATES_SIGNING_KEYS ext) < WEB_UPDATES_SIGNATURE_REQUIREMENT
      then Inr False
      else if timestamp webUpdateDescription < git_revision_unix_timestamp ext
      then Inr False
      else
        (let hash = update_hash ext webUpdateDescription updatePackage in
         case erase_signers ext hash (signatures webUpdateDescription)
                (WEB_UPDATES_SIGNING_KEYS ext) of
           Inl e \<Rightarrow> Inl e
         | Inr authorized_signers \<Rightarrow>
             Inr (fcard (WEB_UPDATES_SIGNING_KEYS ext) - fcard authorized_signers
                    \<ge> WEB_UPDATES_SIGNATURE_REQUIREMENT)))"


section \<open>The window state\<close>

text \<open>
  Modelled from the spec: the wallet belongs to the ledger engine, outside these sources;
  the spec speaks of its lock/unlock state only. \<open>lock\<close> leaves the wallet locked.
\<close>

record wallet_state =
  is_open :: bool
  is_unlocked :: bool

definition lock :: "wallet_state \<Rightarrow> wallet_state" where
  "lock ws = ws\<lparr>is_unlocked := False\<rparr>"

text \<open>
  The part of \<open>MainWindow\<close> and of its collaborators that the update code reads and writes.
  Modelled from the spec: the declaration of the members \<open>_majorVersion\<close>, \<open>_forkVersion\<close>,
  \<open>_minorVersion\<close> and \<open>_patchVersion\<close> (MainWindow.hpp) is not among the sources; section 3
  of the spec gives an unsigned byte each and a character for the patch.
  \<^item> \<open>web_json\<close>, \<open>web_dat\<close>: the content of the two files in the data directory,
    \<open>None\<close> when the file does not exist;
  \<^item> \<open>web_package\<close>: the bundle held by the client wrapper (\<open>set_web_package\<close>);
  \<^item> \<open>wallet\<close>: \<open>None\<close> when \<open>get_client()\<close> or \<open>get_wallet()\<close> is null;
  \<^item> \<open>reloads\<close>: how often \<open>webView()->reload()\<close> has been called.
\<close>

record MainWindow =
  own_majorVersion :: "8 word"
  own_forkVersion :: "8 word"
  own_minorVersion :: "8 word"
  own_patchVersion :: "8 word"
  webUpdateDescription :: UpdateDetails
  web_json :: "bytes option"
  web_dat :: "bytes option"
  web_package :: "string \<rightharpoonup> bytes"
  wallet :: "wallet_state option"
  reloads :: nat

section \<open>Selecting an update (MainWindow::checkWebUpdates, manifest reply)\<close>

text \<open>
  \<open>WebUpdateManifest::updates\<close> is a \<open>std::set\<close> ordered by \<open>operator<\<close>; the list holds
  its elements in ascending order. An iterator is a position in the list, \<open>end()\<close> is the
  length. \<open>lower_bound\<close> is the position of the first element that is not less than the key.
\<close>

fun lower_bound :: "UpdateDetails list \<Rightarrow> UpdateDetails \<Rightarrow> nat" where
  "lower_bound [] key = 0"
| "lower_bound (x # xs) key =
     (if less_UpdateDetails x key then Suc (lower_bound xs key) else 0)"

definition probe :: "MainWindow \<Rightarrow> UpdateDetails" where
  "probe w =
     UpdateDetails_default
       \<lparr>majorVersion := own_majorVersion w,
        forkVersion := own_forkVersion w,
        minorVersion := own_minorVersion w + 1\<rparr>"

definition applicable :: "MainWindow \<Rightarrow> UpdateDetails \<Rightarrow> bool" where
  "applicable w update \<longleftrightarrow>
     \<not> (majorVersion update \<noteq> own_majorVersion w \<or> forkVersion update \<noteq> own_forkVersion w
        \<or> minorVersion update \<noteq> own_minorVersion w \<or> patchVersion update \<le> own_patchVersion w
        \<or> length (signatures update) < WEB_UPDATES_SIGNATURE_REQUIREMENT)"

definition select_update :: "MainWindow \<Rightarrow> UpdateDetails list \<Rightarrow> UpdateDetails option" where
  "select_update w updates =
     (let update = probe w;
          itr = lower_bound updates update
      in if itr = 0 then None
         else
           (let itr = itr - 1;
                update = updates ! itr
            in if applicable w update then Some update else None))"

datatype check_step = no_update | package_requested string | user_declined | load_queued

text \<open>
  The reply to the manifest request. \<open>None\<close> stands for a body that does not parse as a
  manifest: the exception is caught and the check ends.
\<close>

definition manifest_reply ::
  "MainWindow \<Rightarrow> UpdateDetails list option \<Rightarrow> check_step \<times> MainWindow" where
  "manifest_reply w parsed =
     (case parsed of
        None \<Rightarrow> (no_update, w)
      | Some updates \<Rightarrow>
          (case select_update w updates of
             None \<Rightarrow> (no_update, w)
           | Some update \<Rightarrow>
               (package_requested (updatePackageUrl update),
                w\<lparr>webUpdateDescription := update\<rparr>)))"

section \<open>Files and bundle (checkWebUpdates, loadWebUpdates, removeWebUpdates)\<close>

text \<open>The start of \<open>checkWebUpdates\<close>: when exactly one of the two files exists, remove it.\<close>

definition purge_split_files :: "MainWindow \<Rightarrow> MainWindow" where
  "purge_split_files w =
     (if (web_json w \<noteq> None) \<noteq> (web_dat w \<noteq> None)
      then
        (let w = (if web_json w \<noteq> None then w\<lparr>web_json := None\<rparr> else w);
             w = (if web_dat w \<noteq> None then w\<lparr>web_dat := None\<rparr> else w)
         in w)
      else w)"


datatype load_step =
  no_package_found | package_missing | signature_rejected
  | decompress_failed | deserialize_failed | installed

definition webInterfaceMap :: "(string \<times> bytes) list \<Rightarrow> (string \<rightharpoonup> bytes)" where
  "webInterfaceMap deserializedPackage =
     fold (\<lambda>file m. m(fst file \<mapsto> snd file)) deserializedPackage Map.empty"

text \<open>
  \<open>loadWebUpdates\<close>. Neither the parse of the descriptor nor the signature check is inside
  a \<open>try\<close>: an exception of either leaves the function at that point, with the state
  reached there (the descriptor may already be assigned to \<open>_webUpdateDescription\<close>).
\<close>

definition loadWebUpdates ::
  "externals \<Rightarrow> MainWindow \<Rightarrow> exn \<times> MainWindow + load_step \<times> MainWindow" where
  "loadWebUpdates ext w =
     (case web_json w of
        None \<Rightarrow> Inr (no_package_found, w)
      | Some json \<Rightarrow>
     (case web_dat w of
        None \<Rightarrow> Inr (package_missing, w)
      | Some updatePackage \<Rightarrow>
     (case json_load ext json of
        None \<Rightarrow> Inl (fc_exception, w)
      | Some description \<Rightarrow>
     (let w = w\<lparr>webUpdateDescription := description\<rparr> in
      case verifyUpdateSignature ext (webUpdateDescription w) updatePackage of
        Inl e \<Rightarrow> Inl (e, w)
      | Inr ok \<Rightarrow>
          if \<not> ok then Inr (signature_rejected, w\<lparr>web_json := None, web_dat := None\<rparr>)
          else
     (case lzma_decompress ext updatePackage of
        None \<Rightarrow> Inr (decompress_failed, w)
      | Some decompressedStream \<Rightarrow>
     (case raw_unpack ext decompressedStream of
        None \<Rightarrow> Inr (deserialize_failed, w)
      | Some deserializedPackage \<Rightarrow>
          (let w = (if wallet w \<noteq> None then w\<lparr>wallet := map_option lock (wallet w)\<rparr> else w);
               w = w\<lparr>web_package := webInterfaceMap deserializedPackage\<rparr>;
               w = w\<lparr>reloads := reloads w + 1\<rparr>;
               w = w\<lparr>own_patchVersion := patchVersion (webUpdateDescription w)\<rparr>
           in Inr (installed, w))))))))"


text \<open>
  \<open>removeWebUpdates\<close>; \<open>confirmed\<close> is the answer to the dialog. The wallet is locked through
  the client's pointers without a test.
\<close>

definition removeWebUpdates :: "MainWindow \<Rightarrow> bool \<Rightarrow> exn + MainWindow" where
  "removeWebUpdates w confirmed =
     (if confirmed
      then
        (let w = w\<lparr>web_json := None\<rparr>;
             w = w\<lparr>web_dat := None\<rparr>;
             w = w\<lparr>web_package := Map.empty\<rparr>
         in case wallet w of
              None \<Rightarrow> Inl null_pointer
            | Some ws \<Rightarrow> Inr (w\<lparr>wallet := Some (lock ws), reloads := reloads w + 1\<rparr>))
      else Inr w)"

section \<open>Custom URLs (MainWindow::processCustomUrl)\<close>

text \<open>\<open>QString::indexOf\<close> (-1 when absent), \<open>left\<close>, \<open>mid\<close> and \<open>split\<close> with \<open>SkipEmptyParts\<close>.\<close>

definition indexOf :: "string \<Rightarrow> char \<Rightarrow> int" where
  "indexOf s c = (if c \<in> set s then int (length (takeWhile (\<lambda>x. x \<noteq> c) s)) else - 1)"

definition left :: "string \<Rightarrow> int \<Rightarrow> string" where
  "left s n = (if n < 0 \<or> int (length s) \<le> n then s else take (nat n) s)"

definition mid :: "string \<Rightarrow> int \<Rightarrow> string" where
  "mid s pos = (if int (length s) < pos then [] else drop (nat pos) s)"

fun split_parts :: "char \<Rightarrow> string \<Rightarrow> string \<Rightarrow> string list" where
  "split_parts sep [] part = (if part = [] then [] else [part])"
| "split_parts sep (c # cs) part =
     (if c = sep
      then (if part = [] then split_parts sep cs [] else part # split_parts sep cs [])
      else split_parts sep cs (part @ [c]))"

definition split :: "string \<Rightarrow> char \<Rightarrow> string list" where
  "split s sep = split_parts sep s []"

definition url_scheme :: "externals \<Rightarrow> string \<Rightarrow> string" where
  "url_scheme ext url = qt_toLower ext (left url (indexOf url CHR '':''))"

definition url_components :: "string \<Rightarrow> string list" where
  "url_components url =
     (let url = mid url (indexOf url CHR '':'' + 1);
          url = dropWhile (\<lambda>c. c = CHR ''/'') url
      in split url CHR ''/'')"

datatype effect = MessageBox_warning string string | webView_load string | webView_setFocus

text \<open>
  The effects of \<open>processCustomUrl\<close> on the user interface, in order. Log lines are not
  effects. The HTTP endpoint of the client is taken as present.
\<close>

definition processCustomUrl :: "externals \<Rightarrow> string \<Rightarrow> effect list" where
  "processCustomUrl ext url =
     (if url_scheme ext url \<noteq> CUSTOM_URL_SCHEME ext then []
      else
        (let components = url_components url in
         if components = []
         then [MessageBox_warning ''Invalid URL'' ''The URL provided is not valid.'']
         else
           (let urlStr = ''http://'' @ httpd_endpoint ext @ ''/#'';
                str = qt_toLower ext (hd components);
                go = (\<lambda>urlStr. [webView_load urlStr, webView_setFocus])
            in if str = ''home'' \<or> str = ''delegates'' \<or> str = ''notes'' \<or> str = ''directory''
                  \<or> str = ''newcontact'' \<or> str = ''preferences'' \<or> str = ''console''
                  \<or> str = ''help''
               then go (urlStr @ ''/'' @ str)
               else if str = ''accounts''
               then (if length components = 1 then go (urlStr @ ''/accounts'')
                     else if length components = 2
                     then go (urlStr @ ''/accounts/'' @ components ! 1)
                     else go urlStr)
               else if str = ''blocks''
               then (if length components = 1 then go (urlStr @ ''/blocks'')
                     else if length components = 2
                     then (case qt_toInt ext (components ! 1) of
                             Some blockNumber \<Rightarrow>
                               go (urlStr @ ''/blocks/'' @ qt_number ext blockNumber)
                           | None \<Rightarrow>
                               MessageBox_warning ''Invalid Block Number''
                                 ''The specified block number does not exist.'' # go urlStr)
                     else go urlStr)
               else [])))"


section \<open>Notions of the specification\<close>

text \<open>
  The addresses recovered from a list of signatures over a hash, and the number of distinct
  recovered addresses that belong to the trusted key set.
\<close>

fun recovered_addresses :: "externals \<Rightarrow> sha256 \<Rightarrow> compact_signature list \<Rightarrow> address fset" where
  "recovered_addresses ext h [] = {||}"
| "recovered_addresses ext h (s # ss) =
     (case ecc_public_key ext s h of
        None \<Rightarrow> recovered_addresses ext h ss
      | Some k \<Rightarrow> finsert (address_of ext k) (recovered_addresses ext h ss))"

definition trusted_signer_count :: "externals \<Rightarrow> sha256 \<Rightarrow> compact_signature list \<Rightarrow> nat" where
  "trusted_signer_count ext h sigs =
     fcard (recovered_addresses ext h sigs |\<inter>| WEB_UPDATES_SIGNING_KEYS ext)"

text \<open>Every signature of the list yields a public key over the hash.\<close>

fun all_recover :: "externals \<Rightarrow> sha256 \<Rightarrow> compact_signature list \<Rightarrow> bool" where
  "all_recover ext h [] = True"
| "all_recover ext h (s # ss) = (ecc_public_key ext s h \<noteq> None \<and> all_recover ext h ss)"

text \<open>
  The selector in the words of the specification: the first entry that is not less than
  the probe, the entries before it, and the requirements on the candidate.
\<close>

definition first_not_less :: "UpdateDetails list \<Rightarrow> UpdateDetails \<Rightarrow> UpdateDetails option" where
  "first_not_less updates key = List.find (\<lambda>e. \<not> less_UpdateDetails e key) updates"

definition entries_below :: "UpdateDetails list \<Rightarrow> UpdateDetails \<Rightarrow> UpdateDetails list" where
  "entries_below updates key = takeWhile (\<lambda>e. less_UpdateDetails e key) updates"

definition meets_requirements :: "MainWindow \<Rightarrow> UpdateDetails \<Rightarrow> bool" where
  "meets_requirements w c \<longleftrightarrow>
     majorVersion c = own_majorVersion w \<and> forkVersion c = own_forkVersion w
     \<and> minorVersion c = own_minorVersion w \<and> own_patchVersion w < patchVersion c
     \<and> WEB_UPDATES_SIGNATURE_REQUIREMENT \<le> length (signatures c)"

text \<open>
  No update when no entry reaches the probe or the first such entry is the first element;
  otherwise the entry one position before it, when it meets the requirements.
\<close>

definition selector_as_specified :: "MainWindow \<Rightarrow> UpdateDetails list \<Rightarrow> UpdateDetails option" where
  "selector_as_specified w updates =
     (case first_not_less updates (probe w) of
        None \<Rightarrow> None
      | Some e \<Rightarrow>
          if entries_below updates (probe w) = [] then None
          else (let c = last (entries_below updates (probe w))
                in if meets_requirements w c then Some c else None))"

text \<open>
  The same, except that when no entry reaches the probe the position is the end of the
  manifest, and stepping back gives its last entry.
\<close>

definition selector_stepping_back :: "MainWindow \<Rightarrow> UpdateDetails list \<Rightarrow> UpdateDetails option" where
  "selector_stepping_back w updates =
     (if entries_below updates (probe w) = [] then None
      else (let c = last (entries_below updates (probe w))
            in if meets_requirements w c then Some c else None))"

definition version_of :: "UpdateDetails \<Rightarrow> 8 word \<times> 8 word \<times> 8 word \<times> 8 word" where
  "version_of e = (majorVersion e, forkVersion e, minorVersion e, patchVersion e)"

definition own_version :: "MainWindow \<Rightarrow> 8 word \<times> 8 word \<times> 8 word \<times> 8 word" where
  "own_version w =
     (own_majorVersion w, own_forkVersion w, own_minorVersion w, own_patchVersion w)"

text \<open>An entry is newer than the running version when the running version is less than it.\<close>

definition own_details :: "MainWindow \<Rightarrow> UpdateDetails" where
  "own_details w =
     UpdateDetails_default
       \<lparr>majorVersion := own_majorVersion w, forkVersion := own_forkVersion w,
        minorVersion := own_minorVersion w, patchVersion := own_patchVersion w\<rparr>"

definition newer_than_own :: "MainWindow \<Rightarrow> UpdateDetails \<Rightarrow> bool" where
  "newer_than_own w e = less_UpdateDetails (own_details w) e"

text \<open>The command names of section 4.5 of the specification.\<close>

definition allow_list :: "string list" where
  "allow_list =
     [''home'', ''accounts'', ''blocks'', ''delegates'', ''notes'', ''directory'',
      ''newcontact'', ''preferences'', ''console'', ''help'', ''login'', ''transfer'',
      ''referral_code'']"

section \<open>A concrete instance\<close>

text \<open>
  Stand-ins for the library functions, an entry signed by two of the trusted keys and a
  window at version 0.4.16-a, for the examples below. A signature stands for the key that
  made it: its first 33 bytes are the address text.
\<close>

definition ascii_lower :: "char \<Rightarrow> char" where
  "ascii_lower c =
     (case map_of (zip ''ABCDEFGHIJKLMNOPQRSTUVWXYZ'' ''abcdefghijklmnopqrstuvwxyz'') c of
        Some l \<Rightarrow> l
      | None \<Rightarrow> c)"

definition test_update :: UpdateDetails where
  "test_update =
     \<lparr>majorVersion = 0, forkVersion = 4, minorVersion = 16, patchVersion = 98,
      signatures =
        [''4ucXsqrD7uvPF4oaQGZtyapdbgZfGMrcP'', ''HmsVUBDcWxM1hR3VZ6UCeXFUdgy9u9XLx''],
      releaseNotes = ''notes'', updatePackageUrl = ''http://dacplay.org/0.4.16-b.pak'',
      timestamp = 2000\<rparr>"

definition test_externals :: externals where
  "test_externals =
     \<lparr>BTS_ADDRESS_PREFIX = ''XTS'',
      CUSTOM_URL_SCHEME = ''xts'',
      git_revision_unix_timestamp = 1000,
      sha256_hash = (\<lambda>b. b),
      ecc_public_key = (\<lambda>sig h. if sig = [] then None else Some sig),
      address_of = (\<lambda>k. ''XTS'' @ take 33 k),
      json_to_string = (\<lambda>u. updatePackageUrl u @ releaseNotes u),
      json_save = (\<lambda>u. updatePackageUrl u),
      json_load = (\<lambda>b. if b = updatePackageUrl test_update then Some test_update else None),
      lzma_decompress = (\<lambda>b. if take 2 b = ''LZ'' then Some (drop 2 b) else None),
      raw_unpack = (\<lambda>b. Some [(''index.html'', b)]),
      httpd_endpoint = ''127.0.0.1:9989'',
      qt_toLower = map ascii_lower,
      qt_toInt = (\<lambda>s. None),
      qt_number = (\<lambda>n. [])\<rparr>"

definition test_window :: MainWindow where
  "test_window =
     \<lparr>own_majorVersion = 0, own_forkVersion = 4, own_minorVersion = 16, own_patchVersion = 97,
      webUpdateDescription = test_update,
      web_json = None, web_dat = None, web_package = Map.empty,
      wallet = Some \<lparr>is_open = True, is_unlocked = True\<rparr>, reloads = 0\<rparr>"

text \<open>
  The same stand-ins, except that a signature yields its key only over the hash of the
  package \<open>LZabc\<close> followed by the signable string of \<open>test_update\<close>, and some other key
  over any other hash.
\<close>

definition bound_externals :: externals where
  "bound_externals =
     test_externals
       \<lparr>ecc_public_key :=
          (\<lambda>sig h. if h = ''LZabchttp://dacplay.org/0.4.16-b.paknotes'' then Some sig
                    else Some (''?'' @ sig))\<rparr>"

lemmas test_defs =
  test_externals_def test_update_def test_window_def ascii_lower_def
  WEB_UPDATES_SIGNATURE_REQUIREMENT_def WEB_UPDATES_SIGNING_KEYS_def fcard_finsert_if
  fcard_fempty

section \<open>Signature verification: properties\<close>

lemma fcard_signing_keys: "fcard (WEB_UPDATES_SIGNING_KEYS ext) = 4"
  by (simp add: WEB_UPDATES_SIGNING_KEYS_def fcard_finsert_if)

lemma erase_signers_all_recover:
  "all_recover ext h sigs \<Longrightarrow>
   erase_signers ext h sigs A = Inr (A |-| recovered_addresses ext h sigs)"
proof (induction sigs arbitrary: A)
  case Nil
  then show ?case by simp
next
  case (Cons s ss)
  then obtain k where k: "ecc_public_key ext s h = Some k" by auto
  from Cons have rest: "all_recover ext h ss" by simp
  have "A |-| {|address_of ext k|} |-| recovered_addresses ext h ss
        = A |-| finsert (address_of ext k) (recovered_addresses ext h ss)"
    by auto
  with Cons.IH [OF rest] k show ?case
    by simp
qed

lemma erase_signers_throws:
  "\<not> all_recover ext h sigs \<Longrightarrow> erase_signers ext h sigs A = Inl fc_exception"
  by (induction sigs arbitrary: A) (auto split: option.splits)

lemma fcard_erased: "fcard K - fcard (K |-| R) = fcard (R |\<inter>| K)"
proof -
  have "K |-| R = K |-| (R |\<inter>| K)" by auto
  moreover have "fcard (K |-| (R |\<inter>| K)) = fcard K - fcard (R |\<inter>| K)"
    by (rule fcard_funion_fsubset) auto
  moreover have "fcard (R |\<inter>| K) \<le> fcard K"
    by (rule fcard_mono) auto
  ultimately show ?thesis by simp
qed

lemma signing_keys_erased:
  "4 - fcard (WEB_UPDATES_SIGNING_KEYS ext |-| R) = fcard (R |\<inter>| WEB_UPDATES_SIGNING_KEYS ext)"
  using fcard_erased [of "WEB_UPDATES_SIGNING_KEYS ext" R] by (simp add: fcard_signing_keys)

lemma fcard_recovered_le: "fcard (recovered_addresses ext h sigs) \<le> length sigs"
proof (induction sigs)
  case Nil
  then show ?case by simp
next
  case (Cons s ss)
  then show ?case
    by (auto split: option.splits simp: fcard_finsert_if)
qed

lemma trusted_signer_count_le: "trusted_signer_count ext h sigs \<le> length sigs"
proof -
  have "trusted_signer_count ext h sigs \<le> fcard (recovered_addresses ext h sigs)"
    unfolding trusted_signer_count_def by (rule fcard_mono) auto
  with fcard_recovered_le [of ext h sigs] show ?thesis by simp
qed

lemma verify_all_recover:
  assumes "all_recover ext (update_hash ext d pkg) (signatures d)"
  shows "verifyUpdateSignature ext d pkg =
     Inr (\<not> length (signatures d) < 2
          \<and> \<not> timestamp d < git_revision_unix_timestamp ext
          \<and> 2 \<le> trusted_signer_count ext (update_hash ext d pkg) (signatures d))"
  by (simp add: verifyUpdateSignature_def Let_def erase_signers_all_recover [OF assms]
      fcard_signing_keys signing_keys_erased trusted_signer_count_def
      WEB_UPDATES_SIGNATURE_REQUIREMENT_def)

lemma verify_throws:
  assumes "\<not> all_recover ext (update_hash ext d pkg) (signatures d)"
  shows "verifyUpdateSignature ext d pkg =
     (if length (signatures d) < 2 \<or> timestamp d < git_revision_unix_timestamp ext
      then Inr False else Inl fc_exception)"
  by (simp add: verifyUpdateSignature_def Let_def erase_signers_throws [OF assms]
      fcard_signing_keys WEB_UPDATES_SIGNATURE_REQUIREMENT_def)

lemma verify_True_iff:
  "verifyUpdateSignature ext d pkg = Inr True \<longleftrightarrow>
     \<not> timestamp d < git_revision_unix_timestamp ext
     \<and> all_recover ext (update_hash ext d pkg) (signatures d)
     \<and> 2 \<le> trusted_signer_count ext (update_hash ext d pkg) (signatures d)"
proof (cases "all_recover ext (update_hash ext d pkg) (signatures d)")
  case True
  show ?thesis
    using trusted_signer_count_le [of ext "update_hash ext d pkg" "signatures d"]
    by (auto simp: verify_all_recover [OF True] True)
next
  case False
  then show ?thesis
    by (simp add: verify_throws)
qed

lemma verify_same_key:
  assumes sigs: "signatures d = [s1, s2]"
    and k1: "ecc_public_key ext s1 (update_hash ext d pkg) = Some k1"
    and k2: "ecc_public_key ext s2 (update_hash ext d pkg) = Some k2"
    and same: "address_of ext k1 = address_of ext k2"
  shows "verifyUpdateSignature ext d pkg = Inr False"
proof -
  let ?h = "update_hash ext d pkg"
  have rec: "all_recover ext ?h (signatures d)"
    using sigs k1 k2 by simp
  have "recovered_addresses ext ?h (signatures d) = {|address_of ext k2|}"
    using sigs k1 k2 same by simp
  then have "trusted_signer_count ext ?h (signatures d) \<le> fcard {|address_of ext k2|}"
    unfolding trusted_signer_count_def by (simp add: fcard_mono)
  then have "\<not> 2 \<le> trusted_signer_count ext ?h (signatures d)"
    by (simp add: fcard_finsert_if fcard_fempty)
  then show ?thesis
    by (simp add: verify_all_recover [OF rec])
qed

text \<open>
  C1 (as stated, refuted): an entry whose two signatures recover to two distinct trusted
  keys, so that the count reaches the requirement, is not authorized when its timestamp is
  before that of the build.
\<close>

theorem verifyUpdateSignature_count_counterexample:
  "WEB_UPDATES_SIGNATURE_REQUIREMENT
     \<le> trusted_signer_count test_externals
         (update_hash test_externals (test_update\<lparr>timestamp := 999\<rparr>) ''LZabc'')
         (signatures (test_update\<lparr>timestamp := 999\<rparr>))
   \<and> verifyUpdateSignature test_externals (test_update\<lparr>timestamp := 999\<rparr>) ''LZabc''
       = Inr False"
  by (simp add: verifyUpdateSignature_def trusted_signer_count_def test_defs)

text \<open>
  C1 (amended): signature verification authorizes an entry and a package if and only if
  the entry's timestamp is not before that of the build, every signature yields a public
  key over the signable hash, and the number of distinct recovered addresses that belong
  to the trusted key set is at least the requirement (2 of 4 keys). In particular two
  signatures that recover to the same key do not authorize the entry.
\<close>

theorem verifyUpdateSignature_authorizes_iff:
  "(verifyUpdateSignature ext d pkg = Inr True \<longleftrightarrow>
      \<not> timestamp d < git_revision_unix_timestamp ext
      \<and> all_recover ext (update_hash ext d pkg) (signatures d)
      \<and> WEB_UPDATES_SIGNATURE_REQUIREMENT
          \<le> trusted_signer_count ext (update_hash ext d pkg) (signatures d))
   \<and> (signatures d = [s1, s2]
        \<and> ecc_public_key ext s1 (update_hash ext d pkg) = Some k1
        \<and> ecc_public_key ext s2 (update_hash ext d pkg) = Some k2
        \<and> address_of ext k1 = address_of ext k2
      \<longrightarrow> verifyUpdateSignature ext d pkg = Inr False)
   \<and> WEB_UPDATES_SIGNATURE_REQUIREMENT = 2
   \<and> fcard (WEB_UPDATES_SIGNING_KEYS ext) = 4"
  using verify_True_iff [of ext d pkg] verify_same_key [of d s1 s2 ext pkg k1 k2]
  by (simp add: WEB_UPDATES_SIGNATURE_REQUIREMENT_def fcard_signing_keys)

theorem verifyUpdateSignature_authorizes_iff_witness:
  "verifyUpdateSignature test_externals test_update ''LZabc'' = Inr True
   \<and> verifyUpdateSignature test_externals
        (test_update\<lparr>signatures :=
           [''4ucXsqrD7uvPF4oaQGZtyapdbgZfGMrcP1'', ''4ucXsqrD7uvPF4oaQGZtyapdbgZfGMrcP2'']\<rparr>)
        ''LZabc'' = Inr False"
proof -
  let ?d = "test_update\<lparr>signatures :=
           [''4ucXsqrD7uvPF4oaQGZtyapdbgZfGMrcP1'', ''4ucXsqrD7uvPF4oaQGZtyapdbgZfGMrcP2'']\<rparr>"
  have a: "verifyUpdateSignature test_externals test_update ''LZabc'' = Inr True"
    using verifyUpdateSignature_authorizes_iff [of test_externals test_update "''LZabc''"]
    by (simp add: trusted_signer_count_def test_defs)
  have b: "verifyUpdateSignature test_externals ?d ''LZabc'' = Inr False"
    using verifyUpdateSignature_authorizes_iff [of test_externals ?d "''LZabc''"
        "''4ucXsqrD7uvPF4oaQGZtyapdbgZfGMrcP1''" "''4ucXsqrD7uvPF4oaQGZtyapdbgZfGMrcP2''"
        "''4ucXsqrD7uvPF4oaQGZtyapdbgZfGMrcP1''" "''4ucXsqrD7uvPF4oaQGZtyapdbgZfGMrcP2''"]
    by (simp add: test_defs)
  from a b show ?thesis by simp
qed

text \<open>
  C2: package verification checks the signatures against the hash of the package bytes
  followed by the signable string, the entry serialized with its signature set cleared:
  its verdict is that of the two guards and of the addresses that the entry's signatures
  recover to over exactly this hash, so the package enters the verdict through this hash
  only; and two entries that differ only in their signature sets have the same signable
  string and the same hash.
\<close>

theorem update_hash_signable:
  "update_hash ext d pkg = sha256_hash ext (pkg @ signable_string ext d)
   \<and> signable_string ext d = json_to_string ext (d\<lparr>signatures := []\<rparr>)
   \<and> verifyUpdateSignature ext d pkg =
       (if length (signatures d) < WEB_UPDATES_SIGNATURE_REQUIREMENT
           \<or> timestamp d < git_revision_unix_timestamp ext
        then Inr False
        else if all_recover ext
                  (sha256_hash ext (pkg @ json_to_string ext (d\<lparr>signatures := []\<rparr>)))
                  (signatures d)
        then Inr (WEB_UPDATES_SIGNATURE_REQUIREMENT
                    \<le> trusted_signer_count ext
                        (sha256_hash ext (pkg @ json_to_string ext (d\<lparr>signatures := []\<rparr>)))
                        (signatures d))
        else Inl fc_exception)
   \<and> (update_hash ext d pkg = update_hash ext d pkg'
        \<longrightarrow> verifyUpdateSignature ext d pkg = verifyUpdateSignature ext d pkg')
   \<and> signable_string ext (d\<lparr>signatures := sigs\<rparr>) = signable_string ext (d\<lparr>signatures := sigs'\<rparr>)
   \<and> update_hash ext (d\<lparr>signatures := sigs\<rparr>) pkg = update_hash ext (d\<lparr>signatures := sigs'\<rparr>) pkg"
proof -
  let ?h = "sha256_hash ext (pkg @ json_to_string ext (d\<lparr>signatures := []\<rparr>))"
  have h: "update_hash ext d pkg = ?h"
    by (simp add: update_hash_def enc_init_def enc_write_def enc_result_def signable_string_def)
  have verdict: "verifyUpdateSignature ext d pkg =
       (if length (signatures d) < WEB_UPDATES_SIGNATURE_REQUIREMENT
           \<or> timestamp d < git_revision_unix_timestamp ext
        then Inr False
        else if all_recover ext ?h (signatures d)
        then Inr (WEB_UPDATES_SIGNATURE_REQUIREMENT \<le> trusted_signer_count ext ?h (signatures d))
        else Inl fc_exception)"
  proof (cases "all_recover ext (update_hash ext d pkg) (signatures d)")
    case True
    from verify_all_recover [OF True] True show ?thesis
      unfolding h by (auto simp: WEB_UPDATES_SIGNATURE_REQUIREMENT_def)
  next
    case False
    from verify_throws [OF False] False show ?thesis
      unfolding h by (auto simp: WEB_UPDATES_SIGNATURE_REQUIREMENT_def)
  qed
  have rest: "update_hash ext d pkg = sha256_hash ext (pkg @ signable_string ext d)
   \<and> signable_string ext d = json_to_string ext (d\<lparr>signatures := []\<rparr>)
   \<and> (update_hash ext d pkg = update_hash ext d pkg'
        \<longrightarrow> verifyUpdateSignature ext d pkg = verifyUpdateSignature ext d pkg')
   \<and> signable_string ext (d\<lparr>signatures := sigs\<rparr>) = signable_string ext (d\<lparr>signatures := sigs'\<rparr>)
   \<and> update_hash ext (d\<lparr>signatures := sigs\<rparr>) pkg = update_hash ext (d\<lparr>signatures := sigs'\<rparr>) pkg"
    by (simp add: update_hash_def enc_init_def enc_write_def enc_result_def signable_string_def
        verifyUpdateSignature_def)
  from verdict rest show ?thesis by blast
qed

theorem update_hash_signable_witness:
  "update_hash test_externals test_update ''LZabc''
     = ''LZabchttp://dacplay.org/0.4.16-b.paknotes''
   \<and> verifyUpdateSignature bound_externals test_update ''LZabc'' = Inr True
   \<and> verifyUpdateSignature bound_externals test_update ''LZabd'' = Inr False
   \<and> verifyUpdateSignature bound_externals (test_update\<lparr>releaseNotes := ''other''\<rparr>) ''LZabc''
       = Inr False
   \<and> verifyUpdateSignature bound_externals
        (test_update\<lparr>signatures := rev (signatures test_update)\<rparr>) ''LZabc'' = Inr True
   \<and> verifyUpdateSignature (test_externals\<lparr>sha256_hash := take 4\<rparr>) test_update ''LZabc''
     = verifyUpdateSignature (test_externals\<lparr>sha256_hash := take 4\<rparr>) test_update ''LZabd''
   \<and> signable_string test_externals test_update
     = signable_string test_externals (test_update\<lparr>signatures := []\<rparr>)"
proof -
  have 1: "verifyUpdateSignature bound_externals test_update ''LZabc'' = Inr True"
    using update_hash_signable [of bound_externals test_update "''LZabc''" "''LZabc''" "[]" "[]"]
    by (simp add: trusted_signer_count_def bound_externals_def test_defs)
  have 2: "verifyUpdateSignature bound_externals test_update ''LZabd'' = Inr False"
    using update_hash_signable [of bound_externals test_update "''LZabd''" "''LZabd''" "[]" "[]"]
    by (simp add: trusted_signer_count_def bound_externals_def test_defs)
  have 3: "verifyUpdateSignature bound_externals (test_update\<lparr>releaseNotes := ''other''\<rparr>)
             ''LZabc'' = Inr False"
    using update_hash_signable [of bound_externals "test_update\<lparr>releaseNotes := ''other''\<rparr>"
        "''LZabc''" "''LZabc''" "[]" "[]"]
    by (simp add: trusted_signer_count_def bound_externals_def test_defs)
  have 4: "verifyUpdateSignature bound_externals
             (test_update\<lparr>signatures := rev (signatures test_update)\<rparr>) ''LZabc'' = Inr True"
    using update_hash_signable [of bound_externals
        "test_update\<lparr>signatures := rev (signatures test_update)\<rparr>" "''LZabc''" "''LZabc''"
        "[]" "[]"]
    by (simp add: trusted_signer_count_def bound_externals_def test_defs)
  have h: "update_hash (test_externals\<lparr>sha256_hash := take 4\<rparr>) test_update ''LZabc''
         = update_hash (test_externals\<lparr>sha256_hash := take 4\<rparr>) test_update ''LZabd''"
    by (simp add: update_hash_def enc_init_def enc_write_def enc_result_def test_defs)
  from update_hash_signable [of "test_externals\<lparr>sha256_hash := take 4\<rparr>" test_update
      "''LZabc''" "''LZabd''" "[]" "[]"] h
  have 5: "verifyUpdateSignature (test_externals\<lparr>sha256_hash := take 4\<rparr>) test_update ''LZabc''
     = verifyUpdateSignature (test_externals\<lparr>sha256_hash := take 4\<rparr>) test_update ''LZabd''"
    by blast
  from update_hash_signable [of test_externals test_update "''LZabc''" "''LZabc''"
      "signatures test_update" "[]"]
  have "signable_string test_externals (test_update\<lparr>signatures := signatures test_update\<rparr>)
          = signable_string test_externals (test_update\<lparr>signatures := []\<rparr>)"
    and "update_hash test_externals test_update ''LZabc''
          = sha256_hash test_externals (''LZabc'' @ signable_string test_externals test_update)"
    by blast+
  then have 6: "signable_string test_externals test_update
          = signable_string test_externals (test_update\<lparr>signatures := []\<rparr>)"
    and 7: "update_hash test_externals test_update ''LZabc''
          = ''LZabchttp://dacplay.org/0.4.16-b.paknotes''"
    by (simp_all add: signable_string_def test_defs)
  from 1 2 3 4 5 6 7 show ?thesis by simp
qed

text \<open>
  C3: an entry whose timestamp is before the release timestamp of the build is rejected,
  however many trusted signatures it carries.
\<close>

theorem verifyUpdateSignature_rejects_older:
  "timestamp d < git_revision_unix_timestamp ext \<Longrightarrow>
   verifyUpdateSignature ext d pkg = Inr False"
  by (simp add: verifyUpdateSignature_def)

theorem verifyUpdateSignature_rejects_older_witness:
  "timestamp (test_update\<lparr>timestamp := 10\<rparr>) < git_revision_unix_timestamp test_externals
   \<and> verifyUpdateSignature test_externals (test_update\<lparr>timestamp := 10\<rparr>) ''LZabc''
       = Inr False"
proof -
  have old: "timestamp (test_update\<lparr>timestamp := 10\<rparr>)
               < git_revision_unix_timestamp test_externals"
    by (simp add: test_defs)
  from old verifyUpdateSignature_rejects_older [OF old, of "''LZabc''"]
  show ?thesis by simp
qed

section \<open>Selecting an update: properties\<close>

lemma lower_bound_takeWhile:
  "lower_bound updates key = length (entries_below updates key)"
  by (induction updates) (simp_all add: entries_below_def)

lemma nth_before_lower_bound:
  assumes "0 < lower_bound updates key"
  shows "updates ! (lower_bound updates key - 1) = last (entries_below updates key)"
proof -
  let ?below = "takeWhile (\<lambda>e. less_UpdateDetails e key) updates"
  from assms have ne: "?below \<noteq> []"
    by (simp add: lower_bound_takeWhile entries_below_def)
  have "last ?below = ?below ! (length ?below - 1)"
    using ne by (rule last_conv_nth)
  also have "\<dots> = updates ! (length ?below - 1)"
    using ne by (intro takeWhile_nth) simp
  finally show ?thesis
    by (simp add: lower_bound_takeWhile entries_below_def)
qed

lemma first_not_less_position:
  "first_not_less updates key = Some e \<Longrightarrow>
   lower_bound updates key < length updates \<and> updates ! lower_bound updates key = e"
  by (induction updates) (auto simp: first_not_less_def split: if_splits)

lemma first_not_less_None:
  "first_not_less updates key = None \<longleftrightarrow> lower_bound updates key = length updates"
  by (induction updates) (auto simp: first_not_less_def)

lemma applicable_meets: "applicable w c = meets_requirements w c"
  by (auto simp: applicable_def meets_requirements_def)

lemma select_update_stepping_back:
  "select_update w updates = selector_stepping_back w updates"
proof (cases "lower_bound updates (probe w) = 0")
  case True
  then show ?thesis
    by (simp add: select_update_def selector_stepping_back_def lower_bound_takeWhile)
next
  case False
  then have pos: "0 < lower_bound updates (probe w)" by simp
  then have "entries_below updates (probe w) \<noteq> []"
    by (simp add: lower_bound_takeWhile)
  with False nth_before_lower_bound [OF pos] show ?thesis
    by (simp add: select_update_def selector_stepping_back_def Let_def applicable_meets)
qed

lemma select_update_Some:
  assumes "select_update w updates = Some c"
  shows "c \<in> set updates \<and> meets_requirements w c"
proof -
  from assms have ne: "entries_below updates (probe w) \<noteq> []"
    and c: "c = last (entries_below updates (probe w))"
    and m: "meets_requirements w c"
    by (auto simp: select_update_stepping_back selector_stepping_back_def Let_def
        split: if_splits)
  from ne c have "c \<in> set (entries_below updates (probe w))" by simp
  then have "c \<in> set updates"
    unfolding entries_below_def by (rule set_takeWhileD [THEN conjunct1])
  with m show ?thesis by simp
qed

lemma meets_requirements_newer:
  "meets_requirements w c \<Longrightarrow> newer_than_own w c"
  by (simp add: meets_requirements_def newer_than_own_def own_details_def
      less_UpdateDetails_def UpdateDetails_default_def)

lemmas select_defs =
  select_update_def selector_as_specified_def first_not_less_def entries_below_def
  meets_requirements_def applicable_def probe_def UpdateDetails_default_def
  less_UpdateDetails_def

text \<open>
  C4 (as stated, refuted): version 0.4.16-a and a manifest whose only entry is 0.4.16-b
  with two signatures. No entry reaches the probe 0.4.17-a, yet the selector returns the
  entry, where the claim says that it returns no update.
\<close>

theorem select_update_end_counterexample:
  "first_not_less [test_update] (probe test_window) = None
   \<and> selector_as_specified test_window [test_update] = None
   \<and> select_update test_window [test_update] = Some test_update"
  by (simp add: select_defs test_defs)

text \<open>
  C4 (amended): for every current version and every manifest, the selector builds the probe
  (major, fork, minor + 1, patch \<open>'a'\<close>) and finds the first entry not less than the probe,
  or the end of the manifest when there is none. If that position is the first one, which
  includes the empty manifest, it returns no update. Otherwise it steps back one position,
  to the last of the entries below the probe, and returns that entry if and only if its
  major, fork and minor version equal the current ones, its patch is greater than the
  current patch and it has at least as many signatures as are required.
\<close>

theorem select_update_algorithm:
  "version_of (probe w) = (own_majorVersion w, own_forkVersion w, own_minorVersion w + 1, 97)
   \<and> lower_bound updates (probe w) = length (entries_below updates (probe w))
   \<and> select_update w updates =
       (if entries_below updates (probe w) = [] then None
        else if meets_requirements w (last (entries_below updates (probe w)))
        then Some (last (entries_below updates (probe w)))
        else None)
   \<and> (first_not_less updates (probe w) = None
        \<longleftrightarrow> lower_bound updates (probe w) = length updates)
   \<and> (first_not_less updates (probe w) = Some e
        \<longrightarrow> lower_bound updates (probe w) < length updates
            \<and> updates ! lower_bound updates (probe w) = e)"
  using first_not_less_position [of updates "probe w" e] first_not_less_None [of updates "probe w"]
  by (simp add: select_update_stepping_back selector_stepping_back_def Let_def
      lower_bound_takeWhile version_of_def probe_def UpdateDetails_default_def)

theorem select_update_algorithm_witness:
  "select_update test_window [test_update\<lparr>patchVersion := 97\<rparr>, test_update]
     = Some test_update
   \<and> select_update test_window [] = None"
  using select_update_algorithm [of test_window "[test_update\<lparr>patchVersion := 97\<rparr>, test_update]"]
    select_update_algorithm [of test_window "[]"]
  by (simp add: select_defs test_defs)

text \<open>
  C5 (as stated, refuted): version 0.4.16-a and the manifest of exactly 0.4.16-a and
  0.4.17-b, each with two signatures. The selector returns no update, not 0.4.17-b.
\<close>

theorem select_update_minor_counterexample:
  "select_update test_window
     [test_update\<lparr>patchVersion := 97\<rparr>, test_update\<lparr>minorVersion := 17\<rparr>] = None"
  by (simp add: select_defs test_defs)

text \<open>
  C5 (amended): for current version (0,4,16,'a') and a manifest of exactly the entries
  (0,4,16,'a') and (0,4,17,'b'), the selector returns no update; and for a manifest whose
  only entry newer than the current version is (0,5,0,'a'), it returns no update.
\<close>

theorem select_update_examples:
  assumes "own_version w = (0, 4, 16, 97)"
  shows "(version_of a = (0, 4, 16, 97) \<and> version_of b = (0, 4, 17, 98)
            \<longrightarrow> select_update w [a, b] = None)
       \<and> ((\<forall>e \<in> set updates. newer_than_own w e \<longrightarrow> version_of e = (0, 5, 0, 97))
            \<longrightarrow> select_update w updates = None)"
proof (intro conjI impI)
  assume v: "version_of a = (0, 4, 16, 97) \<and> version_of b = (0, 4, 17, 98)"
  show "select_update w [a, b] = None"
  proof (cases "select_update w [a, b]")
    case None
    then show ?thesis .
  next
    case (Some c)
    from select_update_Some [OF Some] have "c = a \<or> c = b" and "meets_requirements w c"
      by auto
    with assms v show ?thesis
      by (auto simp: meets_requirements_def own_version_def version_of_def)
  qed
next
  assume only: "\<forall>e \<in> set updates. newer_than_own w e \<longrightarrow> version_of e = (0, 5, 0, 97)"
  show "select_update w updates = None"
  proof (cases "select_update w updates")
    case None
    then show ?thesis .
  next
    case (Some c)
    from select_update_Some [OF Some] have c: "c \<in> set updates" and m: "meets_requirements w c"
      by auto
    from only c meets_requirements_newer [OF m] have "version_of c = (0, 5, 0, 97)"
      by blast
    with assms m show ?thesis
      by (auto simp: meets_requirements_def own_version_def version_of_def)
  qed
qed

theorem select_update_examples_witness:
  "own_version test_window = (0, 4, 16, 97)
   \<and> select_update test_window
       [test_update\<lparr>patchVersion := 97, signatures := []\<rparr>,
        test_update\<lparr>minorVersion := 17, releaseNotes := ''minor''\<rparr>] = None
   \<and> select_update test_window
       [test_update\<lparr>patchVersion := 97\<rparr>,
        test_update\<lparr>forkVersion := 5, minorVersion := 0, patchVersion := 97\<rparr>] = None"
proof -
  let ?a = "test_update\<lparr>patchVersion := 97, signatures := []\<rparr>"
  let ?b = "test_update\<lparr>minorVersion := 17, releaseNotes := ''minor''\<rparr>"
  let ?m = "[test_update\<lparr>patchVersion := 97\<rparr>,
             test_update\<lparr>forkVersion := 5, minorVersion := 0, patchVersion := 97\<rparr>]"
  have own: "own_version test_window = (0, 4, 16, 97)"
    by (simp add: own_version_def test_defs)
  have va: "version_of ?a = (0, 4, 16, 97) \<and> version_of ?b = (0, 4, 17, 98)"
    by (simp add: version_of_def test_defs)
  have only: "\<forall>e \<in> set ?m. newer_than_own test_window e \<longrightarrow> version_of e = (0, 5, 0, 97)"
    by (simp add: newer_than_own_def own_details_def version_of_def less_UpdateDetails_def
        UpdateDetails_default_def test_defs)
  from select_update_examples [OF own, of ?a ?b ?m] own va only show ?thesis
    by blast
qed

section \<open>Files and bundle: properties\<close>

lemma loadWebUpdates_installs:
  assumes "web_json w = Some j" and "web_dat w = Some p" and "json_load ext j = Some d"
    and "verifyUpdateSignature ext d p = Inr True"
    and "lzma_decompress ext p = Some s" and "raw_unpack ext s = Some files"
  shows "loadWebUpdates ext w =
     Inr (installed,
       w\<lparr>webUpdateDescription := d, wallet := map_option lock (wallet w),
         web_package := webInterfaceMap files, reloads := reloads w + 1,
         own_patchVersion := patchVersion d\<rparr>)"
  using assms by (cases w) (auto simp: loadWebUpdates_def Let_def)




lemma loadWebUpdates_installed_locked:
  assumes "loadWebUpdates ext w = Inr (installed, w')"
  shows "wallet w' = map_option lock (wallet w)"
  using assms
  by (auto simp: loadWebUpdates_def Let_def split: option.splits sum.splits if_splits)

lemma not_unlocked_lock: "\<not> is_unlocked (lock ws)"
  by (simp add: lock_def)

text \<open>
  C6 (as stated, refuted): with only the descriptor on disk the startup loader returns
  without deleting it: the state after the call is the state before, and the descriptor
  is still there.
\<close>

theorem loadWebUpdates_split_counterexample:
  "web_dat (test_window\<lparr>web_json := Some ''{}''\<rparr>) = None
   \<and> loadWebUpdates test_externals (test_window\<lparr>web_json := Some ''{}''\<rparr>)
       = Inr (package_missing, test_window\<lparr>web_json := Some ''{}''\<rparr>)
   \<and> web_json (test_window\<lparr>web_json := Some ''{}''\<rparr>) = Some ''{}''"
  by (simp add: loadWebUpdates_def test_defs)

text \<open>
  C6 (amended): if exactly one of the two on-disk files (web.json, web.dat) exists, the
  startup loader returns with the files and the bundle as they were, so it proceeds with
  no bundle installed by it; the file is deleted by the next update check, which removes
  whichever of the two files exists before it requests the manifest.
\<close>

theorem split_files_handling:
  assumes "(web_json w \<noteq> None) \<noteq> (web_dat w \<noteq> None)"
  shows "loadWebUpdates ext w
           = Inr (if web_json w = None then no_package_found else package_missing, w)
       \<and> purge_split_files w = w\<lparr>web_json := None, web_dat := None\<rparr>"
  using assms by (cases w) (auto simp: loadWebUpdates_def purge_split_files_def)

theorem split_files_handling_witness:
  "loadWebUpdates test_externals (test_window\<lparr>web_dat := Some ''LZabc''\<rparr>)
     = Inr (no_package_found, test_window\<lparr>web_dat := Some ''LZabc''\<rparr>)
   \<and> purge_split_files (test_window\<lparr>web_dat := Some ''LZabc''\<rparr>) = test_window"
proof -
  have split: "(web_json (test_window\<lparr>web_dat := Some ''LZabc''\<rparr>) \<noteq> None)
                 \<noteq> (web_dat (test_window\<lparr>web_dat := Some ''LZabc''\<rparr>) \<noteq> None)"
    by (simp add: test_defs)
  from split_files_handling [OF split, of test_externals] show ?thesis
    by (simp add: test_defs)
qed




text \<open>
  C10: an install of a bundle and a removal of the installed bundle each lock the wallet
  when there is one, besides replacing the bundle in memory and reloading the view: after
  every install a wallet that exists is locked, and after every removal the wallet is
  locked.
\<close>

theorem install_and_removal_lock_wallet:
  "(web_json w = Some j \<and> web_dat w = Some p \<and> json_load ext j = Some d
      \<and> verifyUpdateSignature ext d p = Inr True
      \<and> lzma_decompress ext p = Some s \<and> raw_unpack ext s = Some files
    \<longrightarrow> (\<exists>w'. loadWebUpdates ext w = Inr (installed, w')
            \<and> wallet w' = map_option lock (wallet w)
            \<and> web_package w' = webInterfaceMap files
            \<and> reloads w' = reloads w + 1))
   \<and> (loadWebUpdates ext w = Inr (installed, w1)
    \<longrightarrow> (\<forall>x. wallet w1 = Some x \<longrightarrow> \<not> is_unlocked x))
   \<and> (wallet w = Some ws
    \<longrightarrow> (\<exists>w'. removeWebUpdates w True = Inr w'
            \<and> wallet w' = Some (lock ws) \<and> \<not> is_unlocked (lock ws)
            \<and> web_package w' = Map.empty \<and> reloads w' = reloads w + 1
            \<and> web_json w' = None \<and> web_dat w' = None))
   \<and> (removeWebUpdates w True = Inr w2
    \<longrightarrow> (\<exists>x. wallet w2 = Some x \<and> \<not> is_unlocked x))"
proof (intro conjI impI)
  assume "web_json w = Some j \<and> web_dat w = Some p \<and> json_load ext j = Some d
      \<and> verifyUpdateSignature ext d p = Inr True
      \<and> lzma_decompress ext p = Some s \<and> raw_unpack ext s = Some files"
  then have "web_json w = Some j" and "web_dat w = Some p" and "json_load ext j = Some d"
    and "verifyUpdateSignature ext d p = Inr True"
    and "lzma_decompress ext p = Some s" and "raw_unpack ext s = Some files"
    by simp_all
  then have "loadWebUpdates ext w =
     Inr (installed,
       w\<lparr>webUpdateDescription := d, wallet := map_option lock (wallet w),
         web_package := webInterfaceMap files, reloads := reloads w + 1,
         own_patchVersion := patchVersion d\<rparr>)"
    by (rule loadWebUpdates_installs)
  then show "\<exists>w'. loadWebUpdates ext w = Inr (installed, w')
            \<and> wallet w' = map_option lock (wallet w)
            \<and> web_package w' = webInterfaceMap files
            \<and> reloads w' = reloads w + 1"
    by simp
next
  assume "loadWebUpdates ext w = Inr (installed, w1)"
  from loadWebUpdates_installed_locked [OF this]
  show "\<forall>x. wallet w1 = Some x \<longrightarrow> \<not> is_unlocked x"
    by (auto simp: not_unlocked_lock)
next
  assume "wallet w = Some ws"
  then show "\<exists>w'. removeWebUpdates w True = Inr w'
            \<and> wallet w' = Some (lock ws) \<and> \<not> is_unlocked (lock ws)
            \<and> web_package w' = Map.empty \<and> reloads w' = reloads w + 1
            \<and> web_json w' = None \<and> web_dat w' = None"
    by (simp add: removeWebUpdates_def Let_def not_unlocked_lock)
next
  assume "removeWebUpdates w True = Inr w2"
  then show "\<exists>x. wallet w2 = Some x \<and> \<not> is_unlocked x"
    by (auto simp: removeWebUpdates_def Let_def not_unlocked_lock split: option.splits)
qed

theorem install_and_removal_lock_wallet_witness:
  "loadWebUpdates test_externals
      (test_window\<lparr>web_json := Some ''http://dacplay.org/0.4.16-b.pak'',
                   web_dat := Some ''LZabc''\<rparr>)
     = Inr (installed,
         test_window\<lparr>web_json := Some ''http://dacplay.org/0.4.16-b.pak'',
                      web_dat := Some ''LZabc'',
                      wallet := Some \<lparr>is_open = True, is_unlocked = False\<rparr>,
                      web_package := [''index.html'' \<mapsto> ''abc''],
                      reloads := 1, own_patchVersion := 98\<rparr>)
   \<and> removeWebUpdates test_window True
     = Inr (test_window\<lparr>wallet := Some \<lparr>is_open = True, is_unlocked = False\<rparr>, reloads := 1\<rparr>)"
proof -
  let ?w = "test_window\<lparr>web_json := Some ''http://dacplay.org/0.4.16-b.pak'',
                         web_dat := Some ''LZabc''\<rparr>"
  let ?w' = "test_window\<lparr>web_json := Some ''http://dacplay.org/0.4.16-b.pak'',
                      web_dat := Some ''LZabc'',
                      wallet := Some \<lparr>is_open = True, is_unlocked = False\<rparr>,
                      web_package := [''index.html'' \<mapsto> ''abc''],
                      reloads := 1, own_patchVersion := 98\<rparr>"
  let ?r = "test_window\<lparr>wallet := Some \<lparr>is_open = True, is_unlocked = False\<rparr>, reloads := 1\<rparr>"
  have pre: "web_json ?w = Some ''http://dacplay.org/0.4.16-b.pak'' \<and> web_dat ?w = Some ''LZabc''
      \<and> json_load test_externals ''http://dacplay.org/0.4.16-b.pak'' = Some test_update
      \<and> verifyUpdateSignature test_externals test_update ''LZabc'' = Inr True
      \<and> lzma_decompress test_externals ''LZabc'' = Some ''abc''
      \<and> raw_unpack test_externals ''abc'' = Some [(''index.html'', ''abc'')]"
    by (simp add: verifyUpdateSignature_def Let_def test_defs)
  have load: "loadWebUpdates test_externals ?w = Inr (installed, ?w')"
    by (simp add: loadWebUpdates_def verifyUpdateSignature_def webInterfaceMap_def lock_def
        Let_def test_defs)
  have rem: "removeWebUpdates test_window True = Inr ?r"
    by (simp add: removeWebUpdates_def lock_def Let_def test_defs)
  have w: "wallet test_window = Some \<lparr>is_open = True, is_unlocked = True\<rparr>"
    by (simp add: test_defs)
  from install_and_removal_lock_wallet
      [of ?w "''http://dacplay.org/0.4.16-b.pak''" "''LZabc''" test_externals test_update
        "''abc''" "[(''index.html'', ''abc'')]" ?w']
    pre load
  have "\<forall>x. wallet ?w' = Some x \<longrightarrow> \<not> is_unlocked x"
    by blast
  moreover from install_and_removal_lock_wallet [of test_window _ _ _ _ _ _ _ _ ?r] rem
  have "\<exists>x. wallet ?r = Some x \<and> \<not> is_unlocked x"
    by blast
  ultimately show ?thesis using load rem by simp
qed

section \<open>Custom URLs: properties\<close>

lemmas url_defs =
  processCustomUrl_def url_scheme_def url_components_def indexOf_def left_def mid_def
  split_def Let_def

lemma processCustomUrl_unhandled:
  assumes "url_scheme ext url = CUSTOM_URL_SCHEME ext"
    and "url_components url = c # cs"
    and "qt_toLower ext c \<notin>
           {''home'', ''delegates'', ''notes'', ''directory'', ''newcontact'',
            ''preferences'', ''console'', ''help'', ''accounts'', ''blocks''}"
  shows "processCustomUrl ext url = []"
  using assms by (simp add: processCustomUrl_def Let_def)

text \<open>
  C8 (as stated, refuted): a URL of the registered scheme whose first component is
  \<open>login\<close>, followed by a key, a signature and a return address. The router has no effect:
  no login is started.
\<close>

theorem processCustomUrl_login_counterexample:
  "url_components ''xts:login/XTS6key/1fsignature/example.com/welcome''
     = [''login'', ''XTS6key'', ''1fsignature'', ''example.com'', ''welcome'']
   \<and> processCustomUrl test_externals ''xts:login/XTS6key/1fsignature/example.com/welcome'' = []"
  by (simp add: url_defs test_defs)

text \<open>
  C8 (amended): every URL of the registered custom scheme whose first path component is
  \<open>login\<close> (in any letter case) is ignored by the router: no command is dispatched, nothing
  is navigated to, no dialog is shown.
\<close>

theorem processCustomUrl_ignores_login:
  assumes "url_scheme ext url = CUSTOM_URL_SCHEME ext"
    and "url_components url = c # cs"
    and "qt_toLower ext c = ''login''"
  shows "processCustomUrl ext url = []"
  using assms by (intro processCustomUrl_unhandled [of ext url c cs]) simp_all

theorem processCustomUrl_ignores_login_witness:
  "url_scheme test_externals ''XTS://Login/key/sig/host'' = CUSTOM_URL_SCHEME test_externals
   \<and> url_components ''XTS://Login/key/sig/host'' = [''Login'', ''key'', ''sig'', ''host'']
   \<and> qt_toLower test_externals ''Login'' = ''login''
   \<and> processCustomUrl test_externals ''XTS://Login/key/sig/host'' = []"
proof -
  have 1: "url_scheme test_externals ''XTS://Login/key/sig/host''
             = CUSTOM_URL_SCHEME test_externals"
    by (simp add: url_defs test_defs)
  have 2: "url_components ''XTS://Login/key/sig/host'' = ''Login'' # [''key'', ''sig'', ''host'']"
    by (simp add: url_defs)
  have 3: "qt_toLower test_externals ''Login'' = ''login''"
    by (simp add: test_defs)
  from processCustomUrl_ignores_login [OF 1 2 3] 1 2 3 show ?thesis
    by simp
qed

text \<open>
  C9 (as stated, refuted): the first path component \<open>HOME\<close> is not in the allow list,
  which holds lower-case names, yet the router navigates to the home page: it compares
  the component after converting it to lower case.
\<close>

theorem processCustomUrl_case_counterexample:
  "url_scheme test_externals ''xts://HOME'' = CUSTOM_URL_SCHEME test_externals
   \<and> url_components ''xts://HOME'' = [''HOME'']
   \<and> ''HOME'' \<notin> set allow_list
   \<and> processCustomUrl test_externals ''xts://HOME''
       = [webView_load ''http://127.0.0.1:9989/#/home'', webView_setFocus]"
  by (simp add: url_defs allow_list_def test_defs)

text \<open>
  C9 (amended): a URL whose scheme is the registered custom scheme and whose first path
  component, converted to lower case, is not in the allow list (for example
  xts://deleteallfunds) has no effect: no navigation, no dialog, no change of state.
\<close>

theorem processCustomUrl_allow_list:
  assumes "url_scheme ext url = CUSTOM_URL_SCHEME ext"
    and "url_components url = c # cs"
    and "qt_toLower ext c \<notin> set allow_list"
  shows "processCustomUrl ext url = []"
  using assms by (intro processCustomUrl_unhandled [of ext url c cs]) (simp_all add: allow_list_def)

theorem processCustomUrl_allow_list_witness:
  "url_scheme test_externals ''xts://deleteallfunds'' = CUSTOM_URL_SCHEME test_externals
   \<and> url_components ''xts://deleteallfunds'' = [''deleteallfunds'']
   \<and> qt_toLower test_externals ''deleteallfunds'' \<notin> set allow_list
   \<and> processCustomUrl test_externals ''xts://deleteallfunds'' = []"
proof -
  have 1: "url_scheme test_externals ''xts://deleteallfunds'' = CUSTOM_URL_SCHEME test_externals"
    by (simp add: url_defs test_defs)
  have 2: "url_components ''xts://deleteallfunds'' = ''deleteallfunds'' # []"
    by (simp add: url_defs)
  have 3: "qt_toLower test_externals ''deleteallfunds'' \<notin> set allow_list"
    by (simp add: allow_list_def test_defs)
  from processCustomUrl_allow_list [OF 1 2 3] 1 2 3 show ?thesis
    by simp
qed

end
